theory Spec2Isabelle
  imports Main
begin

section \<open>HTTP requests and responses\<close>

text \<open>
  A request as the application sees it: the method (upper case, as the framework's request
  object reports it), the path, and the parts of a request the claims speak about: the
  query string, the headers and the body.
\<close>

record request =
  req_method :: string
  path :: string
  query_string :: string
  headers :: "(string \<times> string) list"
  data :: string

record response =
  status :: nat
  body :: string

text \<open>
  The HTTP errors the framework raises while routing and dispatching. They are values here:
  a request is answered by \<open>Inl\<close> an error or \<open>Inr\<close> a response. \<open>MethodNotAllowed\<close>
  carries the methods some rule for the path does accept.
\<close>

datatype http_error = NotFound | MethodNotAllowed "string set" | InternalServerError

fun error_code :: "http_error \<Rightarrow> nat" where
  "error_code NotFound = 404"
| "error_code (MethodNotAllowed ms) = 405"
| "error_code InternalServerError = 500"

definition status_code :: "http_error + response \<Rightarrow> nat" where
  "status_code r = (case r of Inl e \<Rightarrow> error_code e | Inr x \<Rightarrow> status x)"


section \<open>The application object and the process\<close>

text \<open>
  The function objects the module defines. \<open>app.py\<close> has one \<open>def\<close>, \<open>home\<close>; the
  application object stores it under its endpoint and the dispatcher calls it through
  \<open>call_view\<close> below.
\<close>

datatype view = Home

fun view_name :: "view \<Rightarrow> string" where
  "view_name Home = ''home''"

datatype exn = Exception string

record url_rule =
  pattern :: string
  rule_methods :: "string set"
  endpoint :: string
  provide_automatic_options :: bool

record flask_app =
  import_name :: string
  url_map :: "url_rule list"
  view_functions :: "string \<rightharpoonup> view"

text \<open>
  The state of the running program: the module global \<open>app\<close>, the address the development
  server listens on (\<open>None\<close> as long as \<open>app.run\<close> has not been called), what the
  program has written to its standard output, and the request context: the request being
  handled, which the framework makes available to the code it calls (\<open>None\<close> between
  requests). A view function has the whole process before it, the request context included.
\<close>

record process =
  app :: flask_app
  listening :: "(string \<times> nat) option"
  stdout :: "string list"
  request_ctx :: "request option"


section \<open>The web framework\<close>

text \<open>
  Modelled from the spec: the web framework (Flask, with its routing library) is a
  dependency of the program; none of its code is in the repository. The spec gives its
  contract in sections 2, 4.1 and 7: a route registered without methods answers GET, a
  matching request is answered with status 200 and the string the handler returns, an
  unmatched path with the default not-found error (404), an unsupported method with the
  default method-not-allowed error (405), a failing handler with 500. Two points follow
  Flask's documented behaviour where the spec is silent: a rule that accepts GET accepts
  HEAD too, and a rule registered without OPTIONS gets an automatic OPTIONS answer.
  The rule for static files that the framework adds to an application by itself is left
  out, as in the spec's single registered route. The functions below keep Flask's names.
\<close>

definition Flask :: "string \<Rightarrow> flask_app" where
  "Flask name = \<lparr>import_name = name, url_map = [], view_functions = Map.empty\<rparr>"

text \<open>
  \<open>add_url_rule\<close> as \<open>route\<close> calls it when the decorator is given the rule string only:
  the methods default to GET, OPTIONS is added as an automatic method, and the rule adds
  HEAD because GET is present.
\<close>

definition add_url_rule :: "string \<Rightarrow> string \<Rightarrow> view \<Rightarrow> flask_app \<Rightarrow> flask_app" where
  "add_url_rule pat ep v a =
    (let ms0 = {''GET''};
         auto = (''OPTIONS'' \<notin> ms0);
         ms1 = (if auto then insert ''OPTIONS'' ms0 else ms0);
         ms2 = (if ''GET'' \<in> ms1 \<and> ''HEAD'' \<notin> ms1 then insert ''HEAD'' ms1 else ms1)
     in a\<lparr>url_map := url_map a @
              [\<lparr>pattern = pat, rule_methods = ms2, endpoint = ep,
                provide_automatic_options = auto\<rparr>],
            view_functions := (view_functions a)(ep \<mapsto> v)\<rparr>)"

text \<open>The decorator \<open>@app.route(rule)\<close>: the endpoint is the name of the decorated function.\<close>

definition route :: "string \<Rightarrow> view \<Rightarrow> flask_app \<Rightarrow> flask_app" where
  "route pat v a = add_url_rule pat (view_name v) v a"

text \<open>
  \<open>app.run(host, port)\<close> starts the development server on the given address. The server
  then serves requests until the process is stopped; here the call records the address.
\<close>

definition run :: "string \<Rightarrow> nat \<Rightarrow> process \<Rightarrow> process" where
  "run host port p = p\<lparr>listening := Some (host, port)\<rparr>"

text \<open>
  How the routing library decides that a rule's pattern matches a request path (slash
  normalisation, redirects) is not described by the spec and is not in the repository. It
  is a parameter \<open>m\<close> of the dispatcher: \<open>m pat p\<close> says that the pattern \<open>pat\<close> matches
  the path \<open>p\<close>. The theorems below assume of it only that the pattern \<open>/\<close> matches the
  path \<open>/\<close>.
\<close>

type_synonym url_matcher = "string \<Rightarrow> string \<Rightarrow> bool"

text \<open>
  Routing: the first rule whose pattern matches the path and whose methods contain the
  request's method. When no rule is found, the error is 405 if some rule matched the path
  (its methods are collected in \<open>have\<close>), and 404 otherwise.
\<close>

fun match_rules ::
  "url_matcher \<Rightarrow> url_rule list \<Rightarrow> string \<Rightarrow> string \<Rightarrow> string set \<Rightarrow> http_error + url_rule"
where
  "match_rules m [] meth p have =
     (if have = {} then Inl NotFound else Inl (MethodNotAllowed have))"
| "match_rules m (r # rs) meth p have =
     (if m (pattern r) p
      then (if meth \<in> rule_methods r then Inr r
            else match_rules m rs meth p (have \<union> rule_methods r))
      else match_rules m rs meth p have)"

definition make_response :: "string \<Rightarrow> response" where
  "make_response s = \<lparr>status = 200, body = s\<rparr>"


section \<open>The program\<close>

text \<open>
  The view function of \<open>app.py\<close>. Its body is one \<open>return\<close> of a string literal: of the
  process it is given, the request context included, it reads nothing; it raises nothing
  and leaves the process as it is.
\<close>

definition home :: "process \<Rightarrow> (exn + string) \<times> process" where
  "home p =
    (Inr ''Hello, I am Siddharth Chitikesi, Roll No: BCD21 ,this is my simple web app deployed with Ansible and Docker!'',
     p)"

fun call_view :: "view \<Rightarrow> process \<Rightarrow> (exn + string) \<times> process" where
  "call_view Home p = home p"

text \<open>
  The module body, run with \<open>__name__\<close> bound to \<open>name\<close>: the application object is
  created, \<open>home\<close> is registered for \<open>/\<close>, and \<open>app.run\<close> is called under the
  \<open>__main__\<close> guard only.
\<close>

definition app_py :: "string \<Rightarrow> process" where
  "app_py name =
    (let p0 = \<lparr>app = Flask name, listening = None, stdout = [], request_ctx = None\<rparr>;
         p1 = p0\<lparr>app := route ''/'' Home (app p0)\<rparr>
     in if name = ''__main__'' then run ''0.0.0.0'' 5000 p1 else p1)"


section \<open>Dispatching a request\<close>

text \<open>
  Modelled from the spec: the framework's dispatcher (see the section on the web framework).
  A routing error is the answer; an OPTIONS request to a rule with automatic options is
  answered by the framework itself; otherwise the view function of the rule's endpoint is
  called, an exception becomes the 500 error and a returned string the body of a 200
  response.
\<close>

definition dispatch_request ::
  "url_matcher \<Rightarrow> request \<Rightarrow> process \<Rightarrow> (http_error + response) \<times> process"
where
  "dispatch_request m req p =
    (case match_rules m (url_map (app p)) (req_method req) (path req) {} of
       Inl e \<Rightarrow> (Inl e, p)
     | Inr r \<Rightarrow>
         if provide_automatic_options r \<and> req_method req = ''OPTIONS''
         then (Inr \<lparr>status = 200, body = []\<rparr>, p)
         else (case view_functions (app p) (endpoint r) of
                 None \<Rightarrow> (Inl InternalServerError, p)
               | Some v \<Rightarrow>
                   (case call_view v p of
                      (Inl e, p') \<Rightarrow> (Inl InternalServerError, p')
                    | (Inr s, p') \<Rightarrow> (Inr (make_response s), p'))))"

text \<open>
  Handling one request: the request context is pushed, the request dispatched, and the
  context that was there before is put back. The answer is as it is sent: the response to
  a HEAD request goes out without its body.
\<close>

definition wsgi_app ::
  "url_matcher \<Rightarrow> request \<Rightarrow> process \<Rightarrow> (http_error + response) \<times> process"
where
  "wsgi_app m req p =
    (case dispatch_request m req (p\<lparr>request_ctx := Some req\<rparr>) of
       (Inl e, p') \<Rightarrow> (Inl e, p'\<lparr>request_ctx := request_ctx p\<rparr>)
     | (Inr r, p') \<Rightarrow>
         (Inr (if req_method req = ''HEAD'' then r\<lparr>body := []\<rparr> else r),
          p'\<lparr>request_ctx := request_ctx p\<rparr>))"

text \<open>The request loop: requests are answered one after the other, each in the state its
  predecessor left.\<close>

fun serve ::
  "url_matcher \<Rightarrow> request list \<Rightarrow> process \<Rightarrow> (http_error + response) list \<times> process"
where
  "serve m [] p = ([], p)"
| "serve m (r # rs) p =
     (case wsgi_app m r p of
        (x, p') \<Rightarrow> (case serve m rs p' of (xs, p'') \<Rightarrow> (x # xs, p'')))"


section \<open>Facts about the program and the dispatcher\<close>

lemma home_frame: "snd (home p) = p"
  by (simp add: home_def)

lemma call_view_frame: "snd (call_view v p) = p"
  by (cases v) (simp add: home_frame)

lemma dispatch_request_frame: "snd (dispatch_request m req p) = p"
proof -
  have "snd (case call_view v p of
               (Inl e, p') \<Rightarrow> (Inl InternalServerError, p')
             | (Inr s, p') \<Rightarrow> (Inr (make_response s), p')) = p" for v
    using call_view_frame [of v p]
    by (cases "call_view v p") (auto split: sum.splits)
  then show ?thesis
    by (simp add: dispatch_request_def split: sum.splits option.splits)
qed

text \<open>
  The answer of a view function does not depend on the request context it runs in. This
  is where the body of \<open>home\<close> is used: it does not read the context.
\<close>

lemma call_view_ctx:
  "call_view v (p\<lparr>request_ctx := c\<rparr>) = (fst (call_view v p), p\<lparr>request_ctx := c\<rparr>)"
  by (cases v) (simp add: home_def)

lemma dispatch_request_ctx:
  "dispatch_request m req (p\<lparr>request_ctx := c\<rparr>) =
     (fst (dispatch_request m req p), p\<lparr>request_ctx := c\<rparr>)"
proof -
  have view: "(case call_view v (p\<lparr>request_ctx := c\<rparr>) of
                 (Inl e, p') \<Rightarrow> (Inl InternalServerError, p')
               | (Inr s, p') \<Rightarrow> (Inr (make_response s), p')) =
              (fst (case call_view v p of
                      (Inl e, p') \<Rightarrow> (Inl InternalServerError, p')
                    | (Inr s, p') \<Rightarrow> (Inr (make_response s), p')),
               p\<lparr>request_ctx := c\<rparr>)" for v
    by (cases "call_view v p") (auto simp: call_view_ctx split: sum.splits)
  show ?thesis
    by (simp add: dispatch_request_def view split: sum.splits option.splits)
qed

lemma wsgi_app_unfold:
  "wsgi_app m req p =
     ((case fst (dispatch_request m req p) of
         Inl e \<Rightarrow> Inl e
       | Inr r \<Rightarrow> Inr (if req_method req = ''HEAD'' then r\<lparr>body := []\<rparr> else r)),
      p)"
  by (simp add: wsgi_app_def dispatch_request_ctx split: sum.splits)

lemma wsgi_app_frame: "snd (wsgi_app m req p) = p"
  by (simp add: wsgi_app_unfold)

lemma serve_frame: "snd (serve m rs p) = p"
proof (induction rs)
  case Nil
  show ?case by simp
next
  case (Cons r rs)
  then show ?case
    using wsgi_app_frame [of m r p]
    by (cases "wsgi_app m r p"; cases "serve m rs p") auto
qed

lemma serve_responses: "fst (serve m rs p) = map (\<lambda>r. fst (wsgi_app m r p)) rs"
proof (induction rs)
  case Nil
  show ?case by simp
next
  case (Cons r rs)
  then show ?case
    using wsgi_app_frame [of m r p]
    by (cases "wsgi_app m r p"; cases "serve m rs p") auto
qed

lemma dispatch_request_reads:
  assumes meth: "req_method r1 = req_method r2" and pth: "path r1 = path r2"
  shows "dispatch_request m r1 p = dispatch_request m r2 p"
  unfolding dispatch_request_def meth pth by (rule refl)

lemma wsgi_app_reads:
  assumes meth: "req_method r1 = req_method r2" and pth: "path r1 = path r2"
  shows "wsgi_app m r1 p = wsgi_app m r2 p"
  unfolding wsgi_app_unfold dispatch_request_reads [OF meth pth, of m p] meth by (rule refl)

lemma app_py_url_map:
  "url_map (app (app_py name)) =
     [\<lparr>pattern = ''/'', rule_methods = {''GET'', ''HEAD'', ''OPTIONS''}, endpoint = ''home'',
       provide_automatic_options = True\<rparr>]"
  by (auto simp: app_py_def run_def route_def add_url_rule_def Flask_def Let_def)

lemma app_py_view_functions: "view_functions (app (app_py name)) = [''home'' \<mapsto> Home]"
  by (simp add: app_py_def run_def route_def add_url_rule_def Flask_def Let_def)

text \<open>
  What the dispatcher answers for the application \<open>app.py\<close> builds, whatever the name the
  module was run under: the single rule decides by the matcher and the method alone.
\<close>

lemma dispatch_request_app_py:
  "dispatch_request m req (app_py name) =
     ((if m ''/'' (path req)
       then (if req_method req = ''OPTIONS'' then Inr \<lparr>status = 200, body = []\<rparr>
             else if req_method req = ''GET'' \<or> req_method req = ''HEAD''
             then Inr \<lparr>status = 200,
                      body = ''Hello, I am Siddharth Chitikesi, Roll No: BCD21 ,this is my simple web app deployed with Ansible and Docker!''\<rparr>
             else Inl (MethodNotAllowed {''GET'', ''HEAD'', ''OPTIONS''}))
       else Inl NotFound),
      app_py name)"
  by (simp add: dispatch_request_def app_py_url_map app_py_view_functions home_def
      make_response_def)


text \<open>
  The program registers no rule but the one for \<open>/\<close>: a request whose path the matcher
  does not match to that pattern is answered with the not-found error, whatever its method.
\<close>

lemma unmatched_path_not_found:
  "\<not> m ''/'' (path req) \<Longrightarrow> fst (wsgi_app m req (app_py name)) = Inl NotFound"
  by (simp add: wsgi_app_unfold dispatch_request_app_py)


section \<open>The root route\<close>

text \<open>
  Claim C1. Every GET request to the path \<open>/\<close> is answered with status 200 and a body that
  is, character for character, the greeting of the source. The matcher is assumed to match
  the pattern \<open>/\<close> to the path \<open>/\<close>; the query string, headers and body of the request
  and the name the module runs under are arbitrary.
\<close>

theorem root_get_ok:
  assumes "m ''/'' ''/''" and "req_method req = ''GET''" and "path req = ''/''"
  shows "fst (wsgi_app m req (app_py name)) =
           Inr \<lparr>status = 200,
                body = ''Hello, I am Siddharth Chitikesi, Roll No: BCD21 ,this is my simple web app deployed with Ansible and Docker!''\<rparr>"
  using assms by (simp add: wsgi_app_unfold dispatch_request_app_py)

text \<open>Witness for C1: a GET request with a query string and a header, served by the program
  run as \<open>__main__\<close>.\<close>

theorem root_get_ok_witness:
  "fst (wsgi_app (=)
          \<lparr>req_method = ''GET'', path = ''/'', query_string = ''x=1'',
            headers = [(''Accept'', ''text/plain'')], data = []\<rparr>
          (app_py ''__main__'')) =
     Inr \<lparr>status = 200,
          body = ''Hello, I am Siddharth Chitikesi, Roll No: BCD21 ,this is my simple web app deployed with Ansible and Docker!''\<rparr>"
  using root_get_ok [of "(=)"
      "\<lparr>req_method = ''GET'', path = ''/'', query_string = ''x=1'',
        headers = [(''Accept'', ''text/plain'')], data = []\<rparr>" "''__main__''"]
  by simp

text \<open>
  Claim C2. The root handler is deterministic and idempotent: when a sequence of GET
  requests to \<open>/\<close> is served one after the other, each in the state the one before left,
  any two of the answers (status and body) are the same.
\<close>

theorem root_get_idempotent:
  assumes "\<forall>r \<in> set reqs. req_method r = ''GET'' \<and> path r = ''/''"
    and "i < length reqs" and "j < length reqs"
  shows "fst (serve m reqs p) ! i = fst (serve m reqs p) ! j"
proof -
  have ri: "req_method (reqs ! i) = ''GET'' \<and> path (reqs ! i) = ''/''"
    using assms(1,2) by simp
  have rj: "req_method (reqs ! j) = ''GET'' \<and> path (reqs ! j) = ''/''"
    using assms(1,3) by simp
  have "wsgi_app m (reqs ! i) p = wsgi_app m (reqs ! j) p"
    by (rule wsgi_app_reads) (simp_all add: ri rj)
  then show ?thesis
    using assms(2,3) by (simp add: serve_responses)
qed

text \<open>Witness for C2: two GET requests to \<open>/\<close> in a row, served by the program run as
  \<open>__main__\<close>.\<close>

theorem root_get_idempotent_witness:
  "fst (serve (=)
          [\<lparr>req_method = ''GET'', path = ''/'', query_string = [], headers = [], data = []\<rparr>,
           \<lparr>req_method = ''GET'', path = ''/'', query_string = [], headers = [], data = []\<rparr>]
          (app_py ''__main__'')) ! 0 =
   fst (serve (=)
          [\<lparr>req_method = ''GET'', path = ''/'', query_string = [], headers = [], data = []\<rparr>,
           \<lparr>req_method = ''GET'', path = ''/'', query_string = [], headers = [], data = []\<rparr>]
          (app_py ''__main__'')) ! 1"
  using root_get_idempotent [of
      "[\<lparr>req_method = ''GET'', path = ''/'', query_string = [], headers = [], data = []\<rparr>,
        \<lparr>req_method = ''GET'', path = ''/'', query_string = [], headers = [], data = []\<rparr>]"
      0 1 "(=)" "app_py ''__main__''"]
  by simp

text \<open>
  Claim C5. The answer to a GET request to \<open>/\<close> does not depend on the query string, the
  headers or the body of the request: two such requests, whatever these three parts are,
  get the same answer in the same state. Each request is in the request context while
  \<open>home\<close> runs, so \<open>home\<close> could read all of it; it reads none of it.
\<close>

theorem root_get_noninterference:
  assumes "req_method r1 = ''GET''" and "path r1 = ''/''"
    and "req_method r2 = ''GET''" and "path r2 = ''/''"
  shows "fst (wsgi_app m r1 p) = fst (wsgi_app m r2 p)"
proof -
  have "wsgi_app m r1 p = wsgi_app m r2 p"
    by (rule wsgi_app_reads) (simp_all add: assms)
  then show ?thesis by simp
qed

text \<open>Witness for C5: two GET requests to \<open>/\<close> that differ in query string, headers and
  body.\<close>

theorem root_get_noninterference_witness:
  "fst (wsgi_app (=)
          \<lparr>req_method = ''GET'', path = ''/'', query_string = ''a=1'',
            headers = [(''X-Token'', ''secret'')], data = ''payload''\<rparr>
          (app_py ''__main__'')) =
   fst (wsgi_app (=)
          \<lparr>req_method = ''GET'', path = ''/'', query_string = [], headers = [], data = []\<rparr>
          (app_py ''__main__''))"
  using root_get_noninterference [of
      "\<lparr>req_method = ''GET'', path = ''/'', query_string = ''a=1'',
        headers = [(''X-Token'', ''secret'')], data = ''payload''\<rparr>"
      "\<lparr>req_method = ''GET'', path = ''/'', query_string = [], headers = [], data = []\<rparr>"
      "(=)" "app_py ''__main__''"]
  by simp

text \<open>
  Claim C6. Handling a request has no side effect: a call of \<open>home\<close> returns the process
  state it was given (application object, listening address, standard output and request
  context), and so does the handling of any request, a GET request to \<open>/\<close> among them.
\<close>

theorem root_handler_no_side_effects:
  "snd (home p) = p \<and> snd (wsgi_app m req p) = p"
  by (simp add: home_frame wsgi_app_frame)

text \<open>
  Claim C9. The handler is total and never raises: every call of \<open>home\<close> returns the
  constant string, and a GET request to \<open>/\<close> is never answered with the internal-error
  status 500.
\<close>

theorem home_never_raises:
  assumes "req_method req = ''GET''" and "path req = ''/''"
  shows "fst (home p) =
           Inr ''Hello, I am Siddharth Chitikesi, Roll No: BCD21 ,this is my simple web app deployed with Ansible and Docker!'' \<and>
         fst (wsgi_app m req (app_py name)) \<noteq> Inl InternalServerError \<and>
         status_code (fst (wsgi_app m req (app_py name))) \<noteq> 500"
  using assms
  by (simp add: home_def wsgi_app_unfold dispatch_request_app_py status_code_def)

text \<open>Witness for C9: a GET request to \<open>/\<close>, served by the program run as \<open>__main__\<close>.\<close>

theorem home_never_raises_witness:
  "fst (home (app_py ''__main__'')) =
     Inr ''Hello, I am Siddharth Chitikesi, Roll No: BCD21 ,this is my simple web app deployed with Ansible and Docker!'' \<and>
   fst (wsgi_app (=)
          \<lparr>req_method = ''GET'', path = ''/'', query_string = [], headers = [], data = []\<rparr>
          (app_py ''__main__'')) \<noteq> Inl InternalServerError \<and>
   status_code (fst (wsgi_app (=)
          \<lparr>req_method = ''GET'', path = ''/'', query_string = [], headers = [], data = []\<rparr>
          (app_py ''__main__''))) \<noteq> 500"
  using home_never_raises [of
      "\<lparr>req_method = ''GET'', path = ''/'', query_string = [], headers = [], data = []\<rparr>"
      "app_py ''__main__''" "(=)" "''__main__''"]
  by simp


section \<open>Other methods on the root route\<close>

text \<open>
  Claim C8. HEAD and OPTIONS requests to \<open>/\<close> are answered with status 200, not with 404
  or 405: the route is registered without methods, so the framework accepts HEAD along with
  GET and answers OPTIONS itself.
\<close>

theorem root_head_options_ok:
  assumes "m ''/'' ''/''" and "path req = ''/''"
    and "req_method req = ''HEAD'' \<or> req_method req = ''OPTIONS''"
  shows "status_code (fst (wsgi_app m req (app_py name))) = 200"
  using assms
  by (auto simp: wsgi_app_unfold dispatch_request_app_py status_code_def)

text \<open>Witness for C8: a HEAD and an OPTIONS request to \<open>/\<close>.\<close>

theorem root_head_options_ok_witness:
  "status_code (fst (wsgi_app (=)
      \<lparr>req_method = ''HEAD'', path = ''/'', query_string = [], headers = [], data = []\<rparr>
      (app_py ''__main__''))) = 200 \<and>
   status_code (fst (wsgi_app (=)
      \<lparr>req_method = ''OPTIONS'', path = ''/'', query_string = [], headers = [], data = []\<rparr>
      (app_py ''__main__''))) = 200"
  using
    root_head_options_ok [of "(=)"
      "\<lparr>req_method = ''HEAD'', path = ''/'', query_string = [], headers = [], data = []\<rparr>"
      "''__main__''"]
    root_head_options_ok [of "(=)"
      "\<lparr>req_method = ''OPTIONS'', path = ''/'', query_string = [], headers = [], data = []\<rparr>"
      "''__main__''"]
  by simp

text \<open>
  Claim C4, as the spec states it, says that every request to \<open>/\<close> with a method other
  than GET is answered with 405 or 404. A HEAD request is such a request and is answered
  with 200. The matcher here is equality of pattern and path, the least one that matches
  \<open>/\<close> to \<open>/\<close>.
\<close>

theorem root_non_get_counterexample:
  "req_method \<lparr>req_method = ''HEAD'', path = ''/'', query_string = [], headers = [], data = []\<rparr>
     \<noteq> ''GET'' \<and>
   status_code (fst (wsgi_app (=)
      \<lparr>req_method = ''HEAD'', path = ''/'', query_string = [], headers = [], data = []\<rparr>
      (app_py ''__main__''))) \<noteq> 405 \<and>
   status_code (fst (wsgi_app (=)
      \<lparr>req_method = ''HEAD'', path = ''/'', query_string = [], headers = [], data = []\<rparr>
      (app_py ''__main__''))) \<noteq> 404"
  by (simp add: wsgi_app_unfold dispatch_request_app_py status_code_def)

text \<open>
  Claim C4, amended. Every request to \<open>/\<close> whose method is none of GET, HEAD and OPTIONS
  (POST, PUT and DELETE among them) is answered with the method-not-allowed error, status
  405, which names GET, HEAD and OPTIONS as the methods the route accepts.
\<close>

theorem root_other_method_not_allowed:
  assumes "m ''/'' ''/''" and "path req = ''/''"
    and "req_method req \<notin> {''GET'', ''HEAD'', ''OPTIONS''}"
  shows "fst (wsgi_app m req (app_py name)) =
           Inl (MethodNotAllowed {''GET'', ''HEAD'', ''OPTIONS''}) \<and>
         status_code (fst (wsgi_app m req (app_py name))) = 405"
  using assms
  by (simp add: wsgi_app_unfold dispatch_request_app_py status_code_def)

text \<open>Witness for the amended C4: a POST request to \<open>/\<close>.\<close>

theorem root_other_method_not_allowed_witness:
  "fst (wsgi_app (=)
      \<lparr>req_method = ''POST'', path = ''/'', query_string = [], headers = [], data = ''x''\<rparr>
      (app_py ''__main__'')) = Inl (MethodNotAllowed {''GET'', ''HEAD'', ''OPTIONS''}) \<and>
   status_code (fst (wsgi_app (=)
      \<lparr>req_method = ''POST'', path = ''/'', query_string = [], headers = [], data = ''x''\<rparr>
      (app_py ''__main__''))) = 405"
  using root_other_method_not_allowed [of "(=)"
      "\<lparr>req_method = ''POST'', path = ''/'', query_string = [], headers = [], data = ''x''\<rparr>"
      "''__main__''"]
  by (simp add: status_code_def)


section \<open>Starting the server\<close>

text \<open>
  Claim C7. Run as a program, that is with \<open>__name__\<close> equal to \<open>__main__\<close>, the module
  starts the server on all interfaces, host \<open>0.0.0.0\<close>, port 5000.
\<close>

theorem main_listens_on_all_interfaces:
  "listening (app_py ''__main__'') = Some (''0.0.0.0'', 5000)"
  by (simp add: app_py_def run_def Let_def)

text \<open>
  Claim C10. Imported, that is with \<open>__name__\<close> other than \<open>__main__\<close>, the module does
  not start the server: no address is listened on, and the import only creates the
  application object with the one rule for \<open>/\<close> and the view function \<open>home\<close>.
\<close>

theorem import_does_not_start_server:
  assumes "name \<noteq> ''__main__''"
  shows "listening (app_py name) = None \<and>
         stdout (app_py name) = [] \<and>
         app (app_py name) =
           \<lparr>import_name = name,
            url_map = [\<lparr>pattern = ''/'', rule_methods = {''GET'', ''HEAD'', ''OPTIONS''},
                        endpoint = ''home'', provide_automatic_options = True\<rparr>],
            view_functions = [''home'' \<mapsto> Home]\<rparr>"
  using assms
  by (auto simp: app_py_def route_def add_url_rule_def Flask_def Let_def)

text \<open>Witness for C10: the module imported under the name \<open>app\<close>.\<close>

theorem import_does_not_start_server_witness:
  "listening (app_py ''app'') = None \<and>
   stdout (app_py ''app'') = [] \<and>
   app (app_py ''app'') =
     \<lparr>import_name = ''app'',
      url_map = [\<lparr>pattern = ''/'', rule_methods = {''GET'', ''HEAD'', ''OPTIONS''},
                  endpoint = ''home'', provide_automatic_options = True\<rparr>],
      view_functions = [''home'' \<mapsto> Home]\<rparr>"
  using import_does_not_start_server [of "''app''"]
  by simp

end
